theory Spec2Isabelle
  imports Main
begin

section \<open>The existing-output index (package download, type DirectoryCache)\<close>

subsection \<open>What the operating system answers\<close>

text \<open>
  \<^verbatim>\<open>os.ReadDir\<close> answers with the entries it could read and an error, if any. The
  errors are the causes the operating system reports; \<^verbatim>\<open>os.IsNotExist\<close> holds of the
  cause "no such file or directory" alone.
\<close>

datatype os_error = ENOENT | EACCES | ENOTDIR | EMFILE | EIO

fun IsNotExist :: "os_error \<Rightarrow> bool" where
  "IsNotExist ENOENT = True"
| "IsNotExist EACCES = False"
| "IsNotExist ENOTDIR = False"
| "IsNotExist EMFILE = False"
| "IsNotExist EIO = False"

record DirEntry =
  Name :: string
  IsDir :: bool

type_synonym ReadDir_result = "DirEntry list \<times> os_error option"

subsection \<open>The cache\<close>

text \<open>
  \<^verbatim>\<open>sync.RWMutex\<close>, as far as this package uses it: only read locks are taken, so the
  state of the lock is the number of readers holding it, and \<^verbatim>\<open>RLock\<close> never waits.
\<close>

record RWMutex =
  readerCount :: nat

definition RLock :: "RWMutex \<Rightarrow> RWMutex" where
  "RLock m = m\<lparr>readerCount := readerCount m + 1\<rparr>"

definition RUnlock :: "RWMutex \<Rightarrow> RWMutex" where
  "RUnlock m = m\<lparr>readerCount := readerCount m - 1\<rparr>"

text \<open>The Go type \<^verbatim>\<open>map[string]struct{}\<close> is a map to the one-element type.\<close>

record DirectoryCache =
  mu :: RWMutex
  files :: "string \<rightharpoonup> unit"

definition empty_cache :: DirectoryCache where
  "empty_cache = \<lparr>mu = \<lparr>readerCount = 0\<rparr>, files = Map.empty\<rparr>"

text \<open>The loop over the entries: \<^verbatim>\<open>if !entry.IsDir() { cache.files[entry.Name()] = struct{}{} }\<close>.\<close>

fun add_entries :: "DirEntry list \<Rightarrow> DirectoryCache \<Rightarrow> DirectoryCache" where
  "add_entries [] cache = cache"
| "add_entries (entry # entries) cache =
     add_entries entries
       (if \<not> IsDir entry then cache\<lparr>files := (files cache)(Name entry \<mapsto> ())\<rparr> else cache)"

text \<open>
  \<^verbatim>\<open>NewDirectoryCache(dir)\<close>. The first argument is the file system, as \<^verbatim>\<open>os.ReadDir\<close>
  reads it; the result is the error (Go's \<^verbatim>\<open>nil, err\<close>) or the cache.
\<close>

definition NewDirectoryCache ::
  "(string \<Rightarrow> ReadDir_result) \<Rightarrow> string \<Rightarrow> os_error + DirectoryCache" where
  "NewDirectoryCache ReadDir dir =
     (let cache = empty_cache in
      case ReadDir dir of
        (entries, Some err) \<Rightarrow> if IsNotExist err then Inr cache else Inl err
      | (entries, None) \<Rightarrow> Inr (add_entries entries cache))"

text \<open>
  \<^verbatim>\<open>CheckIfEpisodeExists(name)\<close> has a pointer receiver and takes the read lock, so the
  model returns the cache it leaves behind beside the answer.
\<close>

definition CheckIfEpisodeExists :: "DirectoryCache \<Rightarrow> string \<Rightarrow> bool \<times> DirectoryCache" where
  "CheckIfEpisodeExists c name =
     (let c1 = c\<lparr>mu := RLock (mu c)\<rparr>;
          ok = (if files c1 (name @ ''.mp4'') \<noteq> None then True
                else if files c1 (name @ ''.ts'') \<noteq> None then True
                else if files c1 name \<noteq> None then True
                else False)
      in (ok, c1\<lparr>mu := RUnlock (mu c1)\<rparr>))"

subsection \<open>Readers running concurrently\<close>

text \<open>
  One call of \<^verbatim>\<open>CheckIfEpisodeExists\<close>, statement by statement. A reader is at the
  read lock, at one of the three lookups, at the deferred unlock, or has returned.
\<close>

datatype reader =
  AtRLock string
| AtMp4 string
| AtTs string
| AtBare string
| AtRUnlock bool
| Returned bool

fun reader_step :: "DirectoryCache \<Rightarrow> reader \<Rightarrow> DirectoryCache \<times> reader" where
  "reader_step c (AtRLock name) = (c\<lparr>mu := RLock (mu c)\<rparr>, AtMp4 name)"
| "reader_step c (AtMp4 name) =
     (c, if files c (name @ ''.mp4'') \<noteq> None then AtRUnlock True else AtTs name)"
| "reader_step c (AtTs name) =
     (c, if files c (name @ ''.ts'') \<noteq> None then AtRUnlock True else AtBare name)"
| "reader_step c (AtBare name) =
     (c, if files c name \<noteq> None then AtRUnlock True else AtRUnlock False)"
| "reader_step c (AtRUnlock ok) = (c\<lparr>mu := RUnlock (mu c)\<rparr>, Returned ok)"
| "reader_step c (Returned ok) = (c, Returned ok)"

text \<open>
  A schedule names, step by step, the reader that runs next; any interleaving of the
  readers is a schedule. A number that names no reader leaves the state as it is.
\<close>

fun run_readers :: "nat list \<Rightarrow> DirectoryCache \<times> reader list \<Rightarrow> DirectoryCache \<times> reader list" where
  "run_readers [] s = s"
| "run_readers (i # sched) (c, rs) =
     (if i < length rs
      then (case reader_step c (rs ! i) of (c', r') \<Rightarrow> run_readers sched (c', rs[i := r']))
      else run_readers sched (c, rs))"

section \<open>The command (cmd/gad/main.go)\<close>

text \<open>A Go \<^verbatim>\<open>error\<close> is represented by its message; \<^verbatim>\<open>nil\<close> is \<open>None\<close>.\<close>

type_synonym error = string

record Args =
  Url :: string
  Extractor :: string

text \<open>
  The functions below call into packages that talk to the network, the browser and the
  disk. What each of these calls returned in a run is an input of the model; the model
  is the control flow of the command around them. Beside its result, every function
  returns the messages it logs with \<^verbatim>\<open>slog.Error\<close>.
\<close>

record series_calls =
  GetDownloader_err :: "error option"
  GetDownloader_nil :: bool
  Get_err :: "error option"
  GetSeriesInfo_err :: "error option"
  Download_err :: "error option"
  managerErr :: "error option"

text \<open>
  \<^verbatim>\<open>handleSeriesDownload\<close>. The field \<open>managerErr\<close> is the value of the variable of that
  name when the last \<^verbatim>\<open>return\<close> statement reads it.
\<close>

definition handleSeriesDownload :: "series_calls \<Rightarrow> error option \<times> string list" where
  "handleSeriesDownload r =
     (case GetDownloader_err r of
        Some err \<Rightarrow> (Some err, [''Failed to get downloader''])
      | None \<Rightarrow>
          if GetDownloader_nil r
          then (Some ''no downloader supports this URL'',
                [''No downloader supports this URL. Maybe use -e to specify an extractor for a single file?''])
          else (case Get_err r of
                  Some err \<Rightarrow> (Some err, [''Failed to start browser''])
                | None \<Rightarrow>
                    (case GetSeriesInfo_err r of
                       Some err \<Rightarrow> (Some err, [''Failed to get series info''])
                     | None \<Rightarrow>
                         (case Download_err r of
                            Some err \<Rightarrow> (Some err, [''Scrape failed''])
                          | None \<Rightarrow> (managerErr r, [])))))"

record single_calls =
  ExtractVideoUrl_err :: "error option"
  ExtractVideoUrl_nil :: bool
  DownloadToFile_err :: "error option"

definition handleSingleDownload :: "single_calls \<Rightarrow> error option \<times> string list" where
  "handleSingleDownload r =
     (case ExtractVideoUrl_err r of
        Some err \<Rightarrow> (Some err, [''Failed to extract video URL''])
      | None \<Rightarrow>
          if ExtractVideoUrl_nil r
          then (Some ''no extractor supported this URL'', [''No extractor supported this URL''])
          else (case DownloadToFile_err r of
                  Some err \<Rightarrow> (Some err, [''Download failed''])
                | None \<Rightarrow> (None, [])))"

record run_calls =
  Execute_err :: "error option"
  args :: Args
  GetDataDir_err :: "error option"
  GetSaveDirectory_err :: "error option"
  ParseRateLimit_err :: "error option"
  AutoDownload_err :: "error option"
  single :: single_calls
  series :: series_calls

text \<open>
  \<^verbatim>\<open>main\<close>: the exit status of the process and the errors it logged. \<^verbatim>\<open>os.Exit(n)\<close>
  ends the process with status \<open>n\<close>; a \<^verbatim>\<open>main\<close> that returns ends it with status 0.
\<close>

definition main :: "run_calls \<Rightarrow> int \<times> string list" where
  "main r =
     (if Execute_err r \<noteq> None then (1, [])
      else if GetDataDir_err r \<noteq> None then (1, [''Failed to create data directory''])
      else if GetSaveDirectory_err r \<noteq> None then (1, [''Failed to get save directory''])
      else if ParseRateLimit_err r \<noteq> None then (1, [''Failed to parse rate limit''])
      else if AutoDownload_err r \<noteq> None then (1, [''Failed to manage FFmpeg''])
      else if Url (args r) \<noteq> []
      then (if Extractor (args r) \<noteq> []
            then (case handleSingleDownload (single r) of
                    (Some err, logged) \<Rightarrow> (1, logged @ [''Failed to handle single download''])
                  | (None, logged) \<Rightarrow> (0, logged))
            else (case handleSeriesDownload (series r) of
                    (Some err, logged) \<Rightarrow> (0, logged @ [''Failed to handle series download''])
                  | (None, logged) \<Rightarrow> (0, logged)))
      else (1, [''Please specify a URL with -u'']))"

subsection \<open>The task channel of handleSeriesDownload\<close>

text \<open>
  A Go channel with a buffer: the values sent and not yet received, its capacity, and
  whether it has been closed. A send on a full channel blocks the sender, a send on a
  closed channel panics; a receive on an empty channel blocks until the channel is closed.
\<close>

record 'a chan =
  buf :: "'a list"
  cap :: nat
  closed :: bool

definition make_chan :: "nat \<Rightarrow> 'a chan" where
  "make_chan n = \<lparr>buf = [], cap = n, closed = False\<rparr>"

datatype 'a send_result = Sent "'a chan" | SendBlocks | SendPanics

datatype 'a recv_result = Received 'a "'a chan" | RecvBlocks | RecvClosed

definition chan_send :: "'a chan \<Rightarrow> 'a \<Rightarrow> 'a send_result" where
  "chan_send ch v =
     (if closed ch then SendPanics
      else if length (buf ch) < cap ch then Sent (ch\<lparr>buf := buf ch @ [v]\<rparr>)
      else SendBlocks)"

definition chan_recv :: "'a chan \<Rightarrow> 'a recv_result" where
  "chan_recv ch =
     (case buf ch of
        v # vs \<Rightarrow> Received v (ch\<lparr>buf := vs\<rparr>)
      | [] \<Rightarrow> if closed ch then RecvClosed else RecvBlocks)"

definition chan_close :: "'a chan \<Rightarrow> 'a chan" where
  "chan_close ch = ch\<lparr>closed := True\<rparr>"

text \<open>
  The parties of \<^verbatim>\<open>handleSeriesDownload\<close> around \<^verbatim>\<open>taskChan\<close>. The scraper
  (\<^verbatim>\<open>dl.Download\<close>) sends tasks on the channel. The feeding goroutine is the only
  receiver: \<^verbatim>\<open>for tw := range taskChan { manager.Submit(...) }\<close>, then \<^verbatim>\<open>manager.Close()\<close>;
  the manager itself is never given the channel. The deferred function closes the channel.

  The state keeps the channel, the task the feeding goroutine has received and not yet
  handed over (from the receive until \<^verbatim>\<open>manager.Submit\<close> has returned), the tasks handed
  to the manager so far, whether \<^verbatim>\<open>manager.Close\<close> has been called, and, for reference,
  the tasks the scraper has sent so far.
\<close>

record 'a feed_state =
  taskChan :: "'a chan"
  in_hand :: "'a option"
  submitted :: "'a list"
  manager_closed :: bool
  produced :: "'a list"

definition start_feed :: "'a feed_state" where
  "start_feed =
     \<lparr>taskChan = make_chan 50, in_hand = None, submitted = [], manager_closed = False,
      produced = []\<rparr>"

text \<open>
  The steps: the scraper sends a task; the feeding goroutine receives the next task, or
  leaves its loop when the channel is closed and empty; \<^verbatim>\<open>manager.Submit\<close> returns;
  the deferred function closes the channel. When \<^verbatim>\<open>manager.Submit\<close> returns is up to the
  manager, whose code is not part of the command: the schedule decides it.
\<close>

datatype 'a event = Produce 'a | Receive | SubmitReturns | CloseChan

text \<open>One step of one party; \<open>None\<close> when that party cannot move (it is blocked).\<close>

fun fire :: "'a event \<Rightarrow> 'a feed_state \<Rightarrow> 'a feed_state option" where
  "fire (Produce tw) s =
     (case chan_send (taskChan s) tw of
        Sent ch \<Rightarrow> Some (s\<lparr>taskChan := ch, produced := produced s @ [tw]\<rparr>)
      | SendBlocks \<Rightarrow> None
      | SendPanics \<Rightarrow> None)"
| "fire Receive s =
     (if manager_closed s \<or> in_hand s \<noteq> None then None
      else case chan_recv (taskChan s) of
             Received tw ch \<Rightarrow> Some (s\<lparr>taskChan := ch, in_hand := Some tw\<rparr>)
           | RecvBlocks \<Rightarrow> None
           | RecvClosed \<Rightarrow> Some (s\<lparr>manager_closed := True\<rparr>))"
| "fire SubmitReturns s =
     (case in_hand s of
        Some tw \<Rightarrow> Some (s\<lparr>in_hand := None, submitted := submitted s @ [tw]\<rparr>)
      | None \<Rightarrow> None)"
| "fire CloseChan s =
     (if closed (taskChan s) then None else Some (s\<lparr>taskChan := chan_close (taskChan s)\<rparr>))"

text \<open>A schedule of the parties; a party that cannot move waits and the schedule goes on.\<close>

fun run_events :: "'a event list \<Rightarrow> 'a feed_state \<Rightarrow> 'a feed_state" where
  "run_events [] s = s"
| "run_events (e # es) s =
     (case fire e s of Some s' \<Rightarrow> run_events es s' | None \<Rightarrow> run_events es s)"


section \<open>The single-job executor\<close>

type_synonym path = string
type_synonym bytes = string
type_synonym reason = string

text \<open>
  Modelled from the spec: the Job of section 3. The downloader of package download is
  not among the sources (the command calls its \<^verbatim>\<open>DownloadToFile\<close>).
\<close>

record Job =
  source :: string
  referer :: "string option"
  output_path :: path
  logical_name :: string
  skipIfExists :: bool
  retryBudget :: nat

text \<open>
  Modelled from the spec: the cancellation of the run, which \<^verbatim>\<open>execute\<close> propagates
  instead of an outcome (step 2a of section 4.4, and the end of that section).
\<close>

datatype cancellation = Cancelled

text \<open>Modelled from the spec: the outcomes of \<^verbatim>\<open>execute\<close> (section 4.4).\<close>

datatype outcome = Completed | Skipped | Failed reason

text \<open>
  Modelled from the spec: what the remux tool answers for a fetched body (step 2d of
  section 4.4): no remux is needed, the remuxed container, or a failure.
\<close>

datatype remux = NotNeeded | Remuxed bytes | RemuxFailed reason

text \<open>
  Modelled from the spec: what the world answers to one attempt (steps 2a to 2d of
  section 4.4). The cancellation signal fires at the cadence guard, or during the
  transfer after some chunks of the body have been written; the remote end fails for
  good; it fails transiently after some chunks; or the whole body arrives, in chunks.
\<close>

datatype attempt =
  CancelledAtGuard
| CancelledInTransfer "bytes list"
| PermanentFailure reason
| TransientFailure "bytes list" reason
| Fetched "bytes list" remux

text \<open>
  Modelled from the spec: the operations of the executor on the disk, and what each does
  to the files (a map from paths to contents). A rename replaces the target in one step;
  removing a file that is not there changes nothing.
\<close>

datatype fs_op =
  Create path
| Append path bytes
| Replace path bytes
| Remove path
| Rename path path

fun apply_op :: "fs_op \<Rightarrow> (path \<rightharpoonup> bytes) \<Rightarrow> (path \<rightharpoonup> bytes)" where
  "apply_op (Create p) fs = fs(p \<mapsto> [])"
| "apply_op (Append p c) fs = fs(p \<mapsto> (case fs p of Some d \<Rightarrow> d | None \<Rightarrow> []) @ c)"
| "apply_op (Replace p b) fs = fs(p \<mapsto> b)"
| "apply_op (Remove p) fs = fs(p := None)"
| "apply_op (Rename p q) fs =
     (case fs p of Some d \<Rightarrow> (fs(p := None))(q \<mapsto> d) | None \<Rightarrow> fs)"

fun run_ops :: "fs_op list \<Rightarrow> (path \<rightharpoonup> bytes) \<Rightarrow> (path \<rightharpoonup> bytes)" where
  "run_ops [] fs = fs"
| "run_ops (op # rest) fs = run_ops rest (apply_op op fs)"

text \<open>
  Modelled from the spec: streaming a body into the temporary file (step 2b): the file is
  created empty, then every chunk is appended.
\<close>

definition stream :: "path \<Rightarrow> bytes list \<Rightarrow> fs_op list" where
  "stream tmp cs = Create tmp # map (Append tmp) cs"

text \<open>
  Modelled from the spec: what one run of \<^verbatim>\<open>execute\<close> did: its result (a cancellation
  is propagated, step 2a), its operations on the disk in order, and the number of fetches
  it issued.
\<close>

record execution =
  result :: "cancellation + outcome"
  ops :: "fs_op list"
  fetches :: nat

definition after_fetch :: "fs_op list \<Rightarrow> execution \<Rightarrow> execution" where
  "after_fetch written e = e\<lparr>ops := written @ ops e, fetches := Suc (fetches e)\<rparr>"

text \<open>
  Modelled from the spec: steps 2 and 3 of section 4.4, with \<open>k\<close> attempts left, the next
  of them attempt number \<open>i\<close>, and \<open>why\<close> the reason of the latest failure. A transient
  failure and a failed remux go to the next attempt, which fetches again; a permanent
  failure ends the job; every exit that is not a success removes the temporary file; a
  success renames the temporary file to the output path.
\<close>

fun attempt_loop ::
  "(nat \<Rightarrow> attempt) \<Rightarrow> path \<Rightarrow> path \<Rightarrow> nat \<Rightarrow> nat \<Rightarrow> reason \<Rightarrow> execution" where
  "attempt_loop remote tmp out 0 i why =
     \<lparr>result = Inr (Failed why), ops = [Remove tmp], fetches = 0\<rparr>"
| "attempt_loop remote tmp out (Suc k) i why =
     (case remote i of
        CancelledAtGuard \<Rightarrow> \<lparr>result = Inl Cancelled, ops = [Remove tmp], fetches = 0\<rparr>
      | CancelledInTransfer cs \<Rightarrow>
          \<lparr>result = Inl Cancelled, ops = stream tmp cs @ [Remove tmp], fetches = 1\<rparr>
      | PermanentFailure r \<Rightarrow> \<lparr>result = Inr (Failed r), ops = [Remove tmp], fetches = 1\<rparr>
      | TransientFailure cs r \<Rightarrow>
          after_fetch (stream tmp cs) (attempt_loop remote tmp out k (Suc i) r)
      | Fetched cs rm \<Rightarrow>
          (case rm of
             NotNeeded \<Rightarrow>
               \<lparr>result = Inr Completed, ops = stream tmp cs @ [Rename tmp out], fetches = 1\<rparr>
           | Remuxed b \<Rightarrow>
               \<lparr>result = Inr Completed,
                ops = stream tmp cs @ [Replace tmp b, Rename tmp out], fetches = 1\<rparr>
           | RemuxFailed r \<Rightarrow>
               after_fetch (stream tmp cs) (attempt_loop remote tmp out k (Suc i) r)))"

text \<open>
  Modelled from the spec: \<^verbatim>\<open>execute\<close> (section 4.4). The index is the existing-output
  index above; \<open>temp_of\<close> gives the temporary name beside an output path.
\<close>

definition execute ::
  "DirectoryCache \<Rightarrow> (path \<Rightarrow> path) \<Rightarrow> (nat \<Rightarrow> attempt) \<Rightarrow> Job \<Rightarrow> execution" where
  "execute idx temp_of remote job =
     (if skipIfExists job \<and> fst (CheckIfEpisodeExists idx (logical_name job))
      then \<lparr>result = Inr Skipped, ops = [], fetches = 0\<rparr>
      else attempt_loop remote (temp_of (output_path job)) (output_path job)
             (retryBudget job + 1) 0 [])"




section \<open>Example runs\<close>

text \<open>A download directory with one finished episode, one raw episode and one folder.\<close>

definition example_dir :: "string \<Rightarrow> ReadDir_result" where
  "example_dir dir =
     ([\<lparr>Name = ''Show - S01E01 - GerDub.mp4'', IsDir = False\<rparr>,
       \<lparr>Name = ''Show - S01E02 - GerDub.ts'', IsDir = False\<rparr>,
       \<lparr>Name = ''Show - S01E03 - GerDub'', IsDir = True\<rparr>], None)"

text \<open>A directory that holds nothing but folders with the names of an episode.\<close>

definition folders_only :: "string \<Rightarrow> ReadDir_result" where
  "folders_only dir =
     ([\<lparr>Name = ''ep1'', IsDir = True\<rparr>,
       \<lparr>Name = ''ep1.mp4'', IsDir = True\<rparr>,
       \<lparr>Name = ''ep1.ts'', IsDir = True\<rparr>], None)"

definition absent_dir :: "string \<Rightarrow> ReadDir_result" where
  "absent_dir dir = ([], Some ENOENT)"

definition unreadable_dir :: "string \<Rightarrow> ReadDir_result" where
  "unreadable_dir dir = ([], Some EACCES)"

text \<open>
  A series download in which everything before the scrape works and the scrape
  (\<^verbatim>\<open>dl.Download\<close>) reports an error.
\<close>

definition failed_scrape :: run_calls where
  "failed_scrape =
     \<lparr>Execute_err = None,
      args = \<lparr>Url = ''https://aniworld.to/anime/stream/yuruyuri-happy-go-lily'', Extractor = []\<rparr>,
      GetDataDir_err = None, GetSaveDirectory_err = None, ParseRateLimit_err = None,
      AutoDownload_err = None,
      single = \<lparr>ExtractVideoUrl_err = None, ExtractVideoUrl_nil = False,
                DownloadToFile_err = None\<rparr>,
      series = \<lparr>GetDownloader_err = None, GetDownloader_nil = False, Get_err = None,
                GetSeriesInfo_err = None, Download_err = Some ''scrape failed'',
                managerErr = None\<rparr>\<rparr>"

text \<open>A job whose every attempt times out after one chunk, and two jobs that succeed.\<close>

definition timing_out :: "nat \<Rightarrow> attempt" where
  "timing_out i = TransientFailure [''ab''] ''timeout''"



definition job_a :: Job where
  "job_a = \<lparr>source = ''https://host/a'', referer = None, output_path = ''a.mp4'',
            logical_name = ''a'', skipIfExists = False, retryBudget = 2\<rparr>"


definition part_of :: "path \<Rightarrow> path" where
  "part_of p = p @ ''.part''"




text \<open>The same, with the first task handed to the manager before the scraper goes on.\<close>

definition full_again :: "nat event list" where
  "full_again = map Produce [0..<50] @ [Receive, SubmitReturns, Produce 50, Produce 51]"




section \<open>Properties of the existing-output index\<close>

lemma mu_add_entries: "mu (add_entries es c) = mu c"
  by (induction es arbitrary: c) auto

lemma dom_files_add_entries:
  "dom (files (add_entries es c)) = dom (files c) \<union> {Name e | e. e \<in> set es \<and> \<not> IsDir e}"
  by (induction es arbitrary: c) auto

lemma RUnlock_RLock: "RUnlock (RLock m) = m"
  by (simp add: RLock_def RUnlock_def)

lemma fst_CheckIfEpisodeExists:
  "fst (CheckIfEpisodeExists c name) =
     (name @ ''.mp4'' \<in> dom (files c) \<or> name @ ''.ts'' \<in> dom (files c) \<or> name \<in> dom (files c))"
  by (auto simp: CheckIfEpisodeExists_def Let_def)

lemma snd_CheckIfEpisodeExists: "snd (CheckIfEpisodeExists c name) = c"
  by (simp add: CheckIfEpisodeExists_def Let_def RUnlock_RLock)

text \<open>
  C2: \<^verbatim>\<open>CheckIfEpisodeExists(name)\<close> answers true exactly when the indexed set of file
  names holds \<open>name\<close> with the extension \<^verbatim>\<open>.mp4\<close>, \<open>name\<close> with the extension \<^verbatim>\<open>.ts\<close>, or
  \<open>name\<close> itself. The three lookups are tried in this order and the first hit answers.
\<close>

theorem CheckIfEpisodeExists_variants:
  "fst (CheckIfEpisodeExists c name) =
     (name @ ''.mp4'' \<in> dom (files c) \<or> name @ ''.ts'' \<in> dom (files c) \<or> name \<in> dom (files c))"
  by (rule fst_CheckIfEpisodeExists)

theorem CheckIfEpisodeExists_variants_witness:
  "fst (CheckIfEpisodeExists (add_entries (fst (example_dir ''downloads'')) empty_cache)
          ''Show - S01E01 - GerDub'')
   \<and> fst (CheckIfEpisodeExists (add_entries (fst (example_dir ''downloads'')) empty_cache)
          ''Show - S01E02 - GerDub'')
   \<and> \<not> fst (CheckIfEpisodeExists (add_entries (fst (example_dir ''downloads'')) empty_cache)
          ''Show - S01E04 - GerDub'')"
  using
    CheckIfEpisodeExists_variants
      [of "add_entries (fst (example_dir ''downloads'')) empty_cache" "''Show - S01E01 - GerDub''"]
    CheckIfEpisodeExists_variants
      [of "add_entries (fst (example_dir ''downloads'')) empty_cache" "''Show - S01E02 - GerDub''"]
    CheckIfEpisodeExists_variants
      [of "add_entries (fst (example_dir ''downloads'')) empty_cache" "''Show - S01E04 - GerDub''"]
  by (simp add: example_dir_def empty_cache_def)

text \<open>
  C3: when the directory is absent (\<^verbatim>\<open>os.ReadDir\<close> fails and \<^verbatim>\<open>os.IsNotExist\<close> holds of
  the error), \<^verbatim>\<open>NewDirectoryCache\<close> succeeds with an empty index, in which no name is
  found. It fails exactly when \<^verbatim>\<open>os.ReadDir\<close> fails with any other error, and the error it
  returns is that error.
\<close>

theorem NewDirectoryCache_absent_or_error:
  "(snd (ReadDir dir) = Some err \<and> IsNotExist err \<longrightarrow>
      (\<exists>c. NewDirectoryCache ReadDir dir = Inr c \<and> files c = Map.empty
           \<and> (\<forall>name. \<not> fst (CheckIfEpisodeExists c name))))
   \<and> (isl (NewDirectoryCache ReadDir dir) = (\<exists>e. snd (ReadDir dir) = Some e \<and> \<not> IsNotExist e))
   \<and> (\<forall>e. NewDirectoryCache ReadDir dir = Inl e \<longrightarrow> snd (ReadDir dir) = Some e)"
  by (cases "ReadDir dir")
     (auto simp: NewDirectoryCache_def Let_def empty_cache_def fst_CheckIfEpisodeExists
           split: option.splits)

theorem NewDirectoryCache_absent_or_error_witness:
  "snd (absent_dir ''downloads'') = Some ENOENT \<and> IsNotExist ENOENT
   \<and> NewDirectoryCache absent_dir ''downloads'' = Inr empty_cache
   \<and> \<not> fst (CheckIfEpisodeExists empty_cache ''Show - S01E01 - GerDub'')
   \<and> snd (unreadable_dir ''downloads'') = Some EACCES
   \<and> NewDirectoryCache unreadable_dir ''downloads'' = Inl EACCES"
  using
    NewDirectoryCache_absent_or_error [of absent_dir "''downloads''" ENOENT]
    NewDirectoryCache_absent_or_error [of unreadable_dir "''downloads''" EACCES]
  by (auto simp: absent_dir_def unreadable_dir_def NewDirectoryCache_def Let_def)

text \<open>
  C10: when the directory can be read, \<^verbatim>\<open>NewDirectoryCache\<close> succeeds and the indexed set
  is the set of the names of the entries that are not directories. Hence a name is not
  found when every entry called \<open>name\<close>, \<open>name\<close> with \<^verbatim>\<open>.mp4\<close> or \<open>name\<close> with \<^verbatim>\<open>.ts\<close> is a
  directory.
\<close>

theorem NewDirectoryCache_skips_directories:
  "ReadDir dir = (entries, None) \<Longrightarrow>
     \<exists>c. NewDirectoryCache ReadDir dir = Inr c
        \<and> dom (files c) = {Name e | e. e \<in> set entries \<and> \<not> IsDir e}
        \<and> ((\<forall>e \<in> set entries. Name e \<in> {name @ ''.mp4'', name @ ''.ts'', name} \<longrightarrow> IsDir e)
             \<longrightarrow> \<not> fst (CheckIfEpisodeExists c name))"
  by (auto simp: NewDirectoryCache_def Let_def empty_cache_def fst_CheckIfEpisodeExists
        dom_files_add_entries)

theorem NewDirectoryCache_skips_directories_witness:
  "folders_only ''downloads'' = (fst (folders_only ''downloads''), None)
   \<and> (\<exists>c. NewDirectoryCache folders_only ''downloads'' = Inr c \<and> dom (files c) = {}
          \<and> \<not> fst (CheckIfEpisodeExists c ''ep1''))"
proof -
  have rd: "folders_only ''downloads'' = (fst (folders_only ''downloads''), None)"
    by (simp add: folders_only_def)
  have dirs: "\<forall>e \<in> set (fst (folders_only ''downloads'')).
                Name e \<in> {''ep1'' @ ''.mp4'', ''ep1'' @ ''.ts'', ''ep1''} \<longrightarrow> IsDir e"
    by (simp add: folders_only_def)
  have none: "{Name e | e. e \<in> set (fst (folders_only ''downloads'')) \<and> \<not> IsDir e} = {}"
    by (auto simp: folders_only_def)
  from NewDirectoryCache_skips_directories
         [of folders_only "''downloads''" "fst (folders_only ''downloads'')" "''ep1''", OF rd]
       dirs none
  have "\<exists>c. NewDirectoryCache folders_only ''downloads'' = Inr c \<and> dom (files c) = {}
          \<and> \<not> fst (CheckIfEpisodeExists c ''ep1'')"
    by auto
  with rd show ?thesis by blast
qed

lemma files_reader_step: "files (fst (reader_step c r)) = files c"
  by (cases r) simp_all

lemma files_run_readers: "files (fst (run_readers sched (c, rs))) = files c"
proof (induction sched arbitrary: c rs)
  case Nil
  show ?case by simp
next
  case (Cons i sched)
  show ?case
  proof (cases "i < length rs")
    case True
    obtain c' r' where st: "reader_step c (rs ! i) = (c', r')"
      by (cases "reader_step c (rs ! i)")
    have "files c' = files c"
      using files_reader_step [of c "rs ! i"] st by simp
    with Cons.IH [of c' "rs[i := r']"] True st show ?thesis by simp
  next
    case False
    with Cons.IH [of c rs] show ?thesis by simp
  qed
qed

text \<open>
  The statements of one call, run without interruption, are the call: the reader model
  and \<^verbatim>\<open>CheckIfEpisodeExists\<close> agree on the answer and on the cache left behind.
\<close>

lemma reader_alone:
  "run_readers [0, 0, 0, 0, 0] (c, [AtRLock name]) =
     (snd (CheckIfEpisodeExists c name), [Returned (fst (CheckIfEpisodeExists c name))])"
  by (simp add: CheckIfEpisodeExists_def Let_def)

text \<open>
  C8: \<^verbatim>\<open>CheckIfEpisodeExists\<close> leaves the cache as it found it (the indexed set, and the
  read lock released), and whatever the interleaving of the statements of any number of
  concurrent readers, the indexed set after it is the indexed set before it.
\<close>

theorem CheckIfEpisodeExists_frame:
  "snd (CheckIfEpisodeExists c name) = c
   \<and> files (fst (run_readers sched (c, rs))) = files c"
  by (simp add: snd_CheckIfEpisodeExists files_run_readers)

theorem CheckIfEpisodeExists_frame_witness:
  "snd (CheckIfEpisodeExists (add_entries (fst (example_dir ''downloads'')) empty_cache) ''ep1'')
     = add_entries (fst (example_dir ''downloads'')) empty_cache
   \<and> files (fst (run_readers [0, 1, 1, 0, 1, 0, 0, 1, 0, 1]
        (add_entries (fst (example_dir ''downloads'')) empty_cache,
         [AtRLock ''Show - S01E02 - GerDub'', AtRLock ''ep1''])))
     = files (add_entries (fst (example_dir ''downloads'')) empty_cache)
   \<and> snd (run_readers [0, 1, 1, 0, 1, 0, 0, 1, 0, 1]
        (add_entries (fst (example_dir ''downloads'')) empty_cache,
         [AtRLock ''Show - S01E02 - GerDub'', AtRLock ''ep1'']))
     = [Returned True, Returned False]"
proof -
  have "snd (run_readers [0, 1, 1, 0, 1, 0, 0, 1, 0, 1]
        (add_entries (fst (example_dir ''downloads'')) empty_cache,
         [AtRLock ''Show - S01E02 - GerDub'', AtRLock ''ep1'']))
     = [Returned True, Returned False]"
    by (simp add: example_dir_def empty_cache_def)
  with CheckIfEpisodeExists_frame
         [of "add_entries (fst (example_dir ''downloads'')) empty_cache" "''ep1''"
             "[0, 1, 1, 0, 1, 0, 0, 1, 0, 1]"
             "[AtRLock ''Show - S01E02 - GerDub'', AtRLock ''ep1'']"]
  show ?thesis by simp
qed

section \<open>Properties of the command\<close>

text \<open>
  Once the set-up has succeeded and a URL is given without an extractor, the exit status
  is 0 whatever \<^verbatim>\<open>handleSeriesDownload\<close> returns: \<^verbatim>\<open>main\<close> logs the error and returns.
\<close>

lemma main_series_exit_status:
  "Execute_err r = None \<Longrightarrow> GetDataDir_err r = None \<Longrightarrow> GetSaveDirectory_err r = None \<Longrightarrow>
   ParseRateLimit_err r = None \<Longrightarrow> AutoDownload_err r = None \<Longrightarrow> Url (args r) \<noteq> [] \<Longrightarrow>
   Extractor (args r) = [] \<Longrightarrow> fst (main r) = 0"
  by (simp add: main_def split: prod.splits option.splits)

text \<open>The same failure on the single-download path ends the process with status 1.\<close>

lemma main_single_exit_status:
  "Execute_err r = None \<Longrightarrow> GetDataDir_err r = None \<Longrightarrow> GetSaveDirectory_err r = None \<Longrightarrow>
   ParseRateLimit_err r = None \<Longrightarrow> AutoDownload_err r = None \<Longrightarrow> Url (args r) \<noteq> [] \<Longrightarrow>
   Extractor (args r) \<noteq> [] \<Longrightarrow>
   fst (main r) = (if fst (handleSingleDownload (single r)) = None then 0 else 1)"
  by (auto simp: main_def split: prod.splits option.splits)

text \<open>
  C1: the exit status is 0 only if no job failed and no fatal condition occurred. The
  command does otherwise on the series path: in the run \<open>failed_scrape\<close> the scrape
  fails, \<^verbatim>\<open>handleSeriesDownload\<close> returns the error, \<^verbatim>\<open>main\<close> logs it, and the exit
  status is 0.
\<close>

theorem main_failed_scrape:
  "handleSeriesDownload (series failed_scrape) = (Some ''scrape failed'', [''Scrape failed''])
   \<and> main failed_scrape = (0, [''Scrape failed'', ''Failed to handle series download''])"
  by (simp add: main_def handleSeriesDownload_def failed_scrape_def)







lemma run_full_again:
  "run_events full_again start_feed =
     \<lparr>taskChan = \<lparr>buf = [1..<51], cap = 50, closed = False\<rparr>, in_hand = None,
      submitted = [0], manager_closed = False, produced = [0..<51]\<rparr>"
  by code_simp




section \<open>Properties of the single-job executor\<close>

lemma run_ops_append: "run_ops (a @ b) fs = run_ops b (run_ops a fs)"
  by (induction a arbitrary: fs) auto

lemma attempt_loop_transient:
  "(\<forall>j<k. \<exists>cs. remote (i + j) = TransientFailure cs (why (i + j))) \<Longrightarrow>
     fetches (attempt_loop remote tmp out k i w) = k
     \<and> result (attempt_loop remote tmp out k i w) =
         Inr (Failed (if k = 0 then w else why (i + k - 1)))
     \<and> (\<exists>pre. ops (attempt_loop remote tmp out k i w) = pre @ [Remove tmp])"
proof (induction k arbitrary: i w)
  case 0
  show ?case by simp
next
  case (Suc k)
  from Suc.prems obtain cs where here: "remote i = TransientFailure cs (why i)"
    by (metis add.right_neutral zero_less_Suc)
  have "\<forall>j<k. \<exists>cs. remote (Suc i + j) = TransientFailure cs (why (Suc i + j))"
    using Suc.prems by (metis Suc_less_eq add_Suc_right add_Suc)
  from Suc.IH [OF this, of "why i"] here show ?case
    by (auto simp: after_fetch_def)
qed

text \<open>
  C5: a job that is not skipped and whose attempts all end in a transient failure is
  fetched exactly \<open>retryBudget + 1\<close> times; \<^verbatim>\<open>execute\<close> then returns Failed with the reason
  of the last attempt, and once its operations have run no file is left at the temporary
  path, whatever was on the disk before.
\<close>

theorem execute_exhausts_retries:
  assumes "\<not> (skipIfExists job \<and> fst (CheckIfEpisodeExists idx (logical_name job)))"
    and "\<forall>i \<le> retryBudget job. \<exists>cs. remote i = TransientFailure cs (why i)"
  shows "fetches (execute idx temp_of remote job) = retryBudget job + 1
     \<and> result (execute idx temp_of remote job) = Inr (Failed (why (retryBudget job)))
     \<and> run_ops (ops (execute idx temp_of remote job)) fs (temp_of (output_path job)) = None"
proof -
  let ?tmp = "temp_of (output_path job)"
  let ?e = "attempt_loop remote ?tmp (output_path job) (retryBudget job + 1) 0 []"
  from assms(1) have ex: "execute idx temp_of remote job = ?e"
    by (auto simp: execute_def simp del: attempt_loop.simps)
  from assms(2)
  have "\<forall>j < retryBudget job + 1. \<exists>cs. remote (0 + j) = TransientFailure cs (why (0 + j))"
    by simp
  from attempt_loop_transient [OF this, of ?tmp "output_path job" "[]"]
  have f: "fetches ?e = retryBudget job + 1"
    and r: "result ?e = Inr (Failed (why (retryBudget job)))"
    and o: "\<exists>pre. ops ?e = pre @ [Remove ?tmp]"
    by (simp_all del: attempt_loop.simps)
  from o obtain pre where "ops ?e = pre @ [Remove ?tmp]" ..
  then have "run_ops (ops ?e) fs ?tmp = None"
    by (simp add: run_ops_append del: attempt_loop.simps)
  with f r ex show ?thesis by simp
qed

theorem execute_exhausts_retries_witness:
  "\<not> skipIfExists job_a
   \<and> timing_out 0 = TransientFailure [''ab''] ''timeout''
   \<and> fetches (execute empty_cache part_of timing_out job_a) = 3
   \<and> result (execute empty_cache part_of timing_out job_a) = Inr (Failed ''timeout'')
   \<and> run_ops (ops (execute empty_cache part_of timing_out job_a)) Map.empty ''a.mp4.part'' = None"
proof -
  have skip: "\<not> (skipIfExists job_a \<and> fst (CheckIfEpisodeExists empty_cache (logical_name job_a)))"
    by (simp add: job_a_def)
  have fail: "\<forall>i \<le> retryBudget job_a. \<exists>cs. timing_out i = TransientFailure cs ''timeout''"
    by (simp add: timing_out_def)
  from execute_exhausts_retries
         [of job_a empty_cache timing_out "\<lambda>i. ''timeout''" part_of Map.empty, OF skip fail]
  show ?thesis
    by (simp add: job_a_def part_of_def timing_out_def)
qed











end
